theory Spec2Isabelle
  imports Complex_Main
begin

section \<open>Python values\<close>

text \<open>
  A Python \<open>str\<close> is a sequence of Unicode code points, so it is a list of naturals
  here; \<open>ascii\<close> embeds the literals of \<open>main.py\<close>, which are all ASCII.
\<close>

type_synonym pystr = "nat list"

definition ascii :: "string \<Rightarrow> pystr" where
  "ascii s = map of_char s"

text \<open>
  A Python \<open>float\<close> is a finite value (a rational), an infinity or a NaN. Only its
  comparison with \<open>0\<close> is used, which is exact.
\<close>

datatype pyfloat = Finite rat | PosInf | NegInf | NaN

datatype pyval =
    PNone
  | PBool bool
  | PInt int
  | PFloat pyfloat
  | PStr pystr
  | PDatetime int
  | PList "pyval list"
  | PDict "(pystr \<times> pyval) list"

text \<open>
  The exception classes the three tools can meet. \<open>OperationalError\<close> and
  \<open>DatabaseError\<close> are psycopg2's; \<open>KeyboardInterrupt\<close> and \<open>SystemExit\<close> derive
  from \<open>BaseException\<close> only, so \<open>except Exception\<close> lets them through.
\<close>

datatype exc_class =
    AttributeError
  | TypeError
  | OperationalError
  | DatabaseError
  | KeyboardInterrupt
  | SystemExit

datatype exn = Exn exc_class pystr

fun is_Exception :: "exc_class \<Rightarrow> bool" where
  "is_Exception KeyboardInterrupt = False"
| "is_Exception SystemExit = False"
| "is_Exception _ = True"

fun exc_class_of :: "exn \<Rightarrow> exc_class" where
  "exc_class_of (Exn c m) = c"

text \<open>\<open>str(e)\<close>: the message the exception was raised with.\<close>

fun str_exn :: "exn \<Rightarrow> pystr" where
  "str_exn (Exn c m) = m"

fun type_name :: "pyval \<Rightarrow> string" where
  "type_name PNone = ''NoneType''"
| "type_name (PBool b) = ''bool''"
| "type_name (PInt i) = ''int''"
| "type_name (PFloat f) = ''float''"
| "type_name (PStr s) = ''str''"
| "type_name (PDatetime t) = ''datetime.datetime''"
| "type_name (PList xs) = ''list''"
| "type_name (PDict kvs) = ''dict''"

subsection \<open>\<open>str.strip()\<close> and \<open><= 0\<close>\<close>

text \<open>
  The code points \<open>str.strip()\<close> removes when called without an argument: those for
  which \<open>str.isspace\<close> holds.
\<close>

definition py_isspace :: "nat \<Rightarrow> bool" where
  "py_isspace c \<longleftrightarrow>
     (9 \<le> c \<and> c \<le> 13) \<or> (28 \<le> c \<and> c \<le> 32) \<or> c = 133 \<or> c = 160 \<or> c = 5760
     \<or> (8192 \<le> c \<and> c \<le> 8202) \<or> c = 8232 \<or> c = 8233 \<or> c = 8239 \<or> c = 8287
     \<or> c = 12288"

definition strip :: "pystr \<Rightarrow> pystr" where
  "strip s = rev (dropWhile py_isspace (rev (dropWhile py_isspace s)))"

text \<open>
  \<open>v.strip()\<close> for any value: only \<open>str\<close> has the method among the modelled
  types; on anything else the attribute lookup raises \<open>AttributeError\<close>.
\<close>

fun py_strip :: "pyval \<Rightarrow> exn + pystr" where
  "py_strip (PStr s) = Inr (strip s)"
| "py_strip v = Inl (Exn AttributeError
     (ascii ([CHR 0x27] @ type_name v @ [CHR 0x27] @ '' object has no attribute ''
             @ [CHR 0x27] @ ''strip'' @ [CHR 0x27])))"

fun float_le_zero :: "pyfloat \<Rightarrow> bool" where
  "float_le_zero (Finite q) = (q \<le> 0)"
| "float_le_zero NegInf = True"
| "float_le_zero PosInf = False"
| "float_le_zero NaN = False"

text \<open>
  \<open>v <= 0\<close>: defined on \<open>bool\<close> (a subclass of \<open>int\<close>), \<open>int\<close> and \<open>float\<close>;
  \<open>TypeError\<close> on the other types.
\<close>

fun py_le_zero :: "pyval \<Rightarrow> exn + bool" where
  "py_le_zero (PBool b) = Inr (\<not> b)"
| "py_le_zero (PInt i) = Inr (i \<le> 0)"
| "py_le_zero (PFloat f) = Inr (float_le_zero f)"
| "py_le_zero v = Inl (Exn TypeError
     (ascii ([CHR 0x27] @ ''<='' @ [CHR 0x27] @ '' not supported between instances of ''
             @ [CHR 0x27] @ type_name v @ [CHR 0x27] @ '' and ''
             @ [CHR 0x27] @ ''int'' @ [CHR 0x27])))"

section \<open>The store\<close>

text \<open>
  One row of the table \<open>employees\<close>. The four caller-supplied columns hold the bound
  Python value as it was sent; \<open>hire_date\<close> is a timestamp (microseconds).
\<close>

record employee =
  emp_id :: int
  emp_name :: pyval
  emp_position :: pyval
  emp_department :: pyval
  emp_salary :: pyval
  emp_hire_date :: int

text \<open>
  The cursor factory is \<open>RealDictCursor\<close>: a fetched row is a dictionary from column
  name to value, in the order of the select list.
\<close>

definition row_of :: "employee \<Rightarrow> pyval" where
  "row_of e = PDict
     [(ascii ''id'', PInt (emp_id e)),
      (ascii ''name'', emp_name e),
      (ascii ''position'', emp_position e),
      (ascii ''department'', emp_department e),
      (ascii ''salary'', emp_salary e),
      (ascii ''hire_date'', PDatetime (emp_hire_date e))]"

text \<open>The three statements of \<open>main.py\<close>; each is a constant text with placeholders.\<close>

datatype sql =
    Select_recent   \<comment> \<open>\<open>SELECT ... FROM employees ORDER BY hire_date DESC LIMIT %s\<close>\<close>
  | Select_by_id    \<comment> \<open>\<open>SELECT ... FROM employees WHERE id = %s\<close>\<close>
  | Insert_returning \<comment> \<open>\<open>INSERT INTO employees (...) VALUES (%s, %s, %s, %s, %s) RETURNING ...\<close>\<close>

text \<open>
  What is outside the process: the committed rows of the table, the sequence that
  generates \<open>id\<close>, the number of connections opened by \<open>psycopg2.connect\<close> and not
  yet released (by \<open>conn.close()\<close> or by the destructor of the connection object), and
  every statement sent with its bound parameters.
\<close>

record world =
  employees :: "employee list"
  next_id :: int
  open_conns :: nat
  statements :: "(sql \<times> pyval list) list"

text \<open>
  What the environment does during one invocation: the reading of \<open>datetime.now()\<close>,
  and for each driver call whether it fails (unreachable store, rejected credentials,
  constraint violation, lost connection) and with which message.
\<close>

record env =
  clock :: int
  connect_fault :: "pystr option"
  cursor_fault :: "pystr option"
  execute_fault :: "pystr option"
  fetch_fault :: "pystr option"
  commit_fault :: "pystr option"
  close_fault :: "pystr option"

text \<open>
  A connection object carries the rows inserted and not yet committed, and whether it has
  been closed (its attribute \<open>closed\<close>); a cursor its result set.
\<close>

record conn =
  pending :: "employee list"
  conn_closed :: bool

record cursor =
  result :: "pyval list"

type_synonym 'a io = "world \<Rightarrow> (exn + 'a) \<times> world"

definition return_io :: "'a \<Rightarrow> 'a io" where
  "return_io x w = (Inr x, w)"

definition bind_io :: "'a io \<Rightarrow> ('a \<Rightarrow> 'b io) \<Rightarrow> 'b io" where
  "bind_io m f w = (case m w of (Inl e, w') \<Rightarrow> (Inl e, w') | (Inr x, w') \<Rightarrow> f x w')"

text \<open>
  The \<open>try\<close> block of a tool: besides its result and the world it leaves, what the
  local variable \<open>conn\<close> of the tool is bound to when the block is left (\<open>None\<close>
  while it is unbound).
\<close>

type_synonym 'a block = "world \<Rightarrow> ((exn + 'a) \<times> conn option) \<times> world"

subsection \<open>The statements on PostgreSQL\<close>

text \<open>
  \<open>ORDER BY hire_date DESC\<close>: SQL leaves the order of ties open; the model keeps them
  in table order.
\<close>

definition order_by_hire_date_desc :: "employee list \<Rightarrow> employee list" where
  "order_by_hire_date_desc tbl = sort_key (\<lambda>e. - emp_hire_date e) tbl"

text \<open>
  The result set of a statement and the rows it inserts, on the visible table with the
  next value of the id sequence. PostgreSQL rejects a negative \<open>LIMIT\<close> (SQLSTATE 2201W,
  \<open>LIMIT must not be negative\<close>); the message below stands for the text the driver
  reports. Constraints of the table, which \<open>main.py\<close> does not declare, are failures
  of the environment (\<open>execute_fault\<close>).
\<close>

definition bad_parameters :: "pystr + (pyval list \<times> employee list)" where
  "bad_parameters = Inl (ascii ''statement and parameters do not match'')"

definition run_sql :: "sql \<Rightarrow> pyval list \<Rightarrow> employee list \<Rightarrow> int
                 \<Rightarrow> pystr + (pyval list \<times> employee list)" where
  "run_sql q ps tbl nid =
     (case q of
        Select_recent \<Rightarrow>
          (case ps of
             [PInt n] \<Rightarrow>
               if n < 0 then Inl (ascii ''LIMIT must not be negative'')
               else Inr (map row_of (take (nat n) (order_by_hire_date_desc tbl)), [])
           | _ \<Rightarrow> bad_parameters)
      | Select_by_id \<Rightarrow>
          (case ps of
             [PInt i] \<Rightarrow> Inr (map row_of (filter (\<lambda>e. emp_id e = i) tbl), [])
           | _ \<Rightarrow> bad_parameters)
      | Insert_returning \<Rightarrow>
          (case ps of
             [n, p, d, s, PDatetime t] \<Rightarrow>
               (let e = \<lparr>emp_id = nid, emp_name = n, emp_position = p, emp_department = d,
                         emp_salary = s, emp_hire_date = t\<rparr>
                in Inr ([row_of e], [e]))
           | _ \<Rightarrow> bad_parameters))"

subsection \<open>The driver calls\<close>

definition get_db_connection :: "env \<Rightarrow> conn io" where
  "get_db_connection en w =
     (case connect_fault en of
        Some m \<Rightarrow> (Inl (Exn OperationalError m), w)
      | None \<Rightarrow> (Inr \<lparr>pending = [], conn_closed = False\<rparr>,
                 w\<lparr>open_conns := open_conns w + 1\<rparr>))"

definition conn_cursor :: "env \<Rightarrow> conn \<Rightarrow> cursor io" where
  "conn_cursor en c w =
     (case cursor_fault en of
        Some m \<Rightarrow> (Inl (Exn DatabaseError m), w)
      | None \<Rightarrow> (Inr \<lparr>result = []\<rparr>, w))"

text \<open>
  \<open>cursor.execute(text, params)\<close>: the statement goes out with its parameters; the
  store runs it inside the connection's open transaction, which sees its own inserts.
  The id sequence advances for an insert whether or not the transaction commits.
\<close>

definition cursor_execute :: "env \<Rightarrow> conn \<Rightarrow> sql \<Rightarrow> pyval list \<Rightarrow> (conn \<times> cursor) io" where
  "cursor_execute en c q ps w =
     (let w1 = w\<lparr>statements := statements w @ [(q, ps)]\<rparr> in
      case execute_fault en of
        Some m \<Rightarrow> (Inl (Exn DatabaseError m), w1)
      | None \<Rightarrow>
          (case run_sql q ps (employees w @ pending c) (next_id w) of
             Inl m \<Rightarrow> (Inl (Exn DatabaseError m), w1)
           | Inr (rows, ins) \<Rightarrow>
               (Inr (c\<lparr>pending := pending c @ ins\<rparr>, \<lparr>result = rows\<rparr>),
                w1\<lparr>next_id := next_id w + int (length ins)\<rparr>)))"

definition cursor_fetchall :: "env \<Rightarrow> cursor \<Rightarrow> pyval io" where
  "cursor_fetchall en cu w =
     (case fetch_fault en of
        Some m \<Rightarrow> (Inl (Exn DatabaseError m), w)
      | None \<Rightarrow> (Inr (PList (result cu)), w))"

definition cursor_fetchone :: "env \<Rightarrow> cursor \<Rightarrow> pyval io" where
  "cursor_fetchone en cu w =
     (case fetch_fault en of
        Some m \<Rightarrow> (Inl (Exn DatabaseError m), w)
      | None \<Rightarrow> (Inr (case result cu of [] \<Rightarrow> PNone | r # rs \<Rightarrow> r), w))"

definition conn_commit :: "env \<Rightarrow> conn \<Rightarrow> conn io" where
  "conn_commit en c w =
     (case commit_fault en of
        Some m \<Rightarrow> (Inl (Exn DatabaseError m), w)
      | None \<Rightarrow> (Inr (c\<lparr>pending := []\<rparr>), w\<lparr>employees := employees w @ pending c\<rparr>))"

text \<open>
  \<open>conn.close()\<close> releases the connection and marks the object closed; what is
  pending is rolled back. On an object that is closed already it does nothing.
\<close>

definition conn_close :: "env \<Rightarrow> conn \<Rightarrow> conn io" where
  "conn_close en c w =
     (if conn_closed c then (Inr c, w)
      else case close_fault en of
        Some m \<Rightarrow> (Inl (Exn DatabaseError m), w)
      | None \<Rightarrow> (Inr (c\<lparr>pending := [], conn_closed := True\<rparr>),
                 w\<lparr>open_conns := open_conns w - 1\<rparr>))"

text \<open>
  The destructor of the connection object, run when the object is deallocated: a
  connection that is still open is released, and what is pending is rolled back.
\<close>

definition conn_dealloc :: "conn \<Rightarrow> world \<Rightarrow> world" where
  "conn_dealloc c w = (if conn_closed c then w else w\<lparr>open_conns := open_conns w - 1\<rparr>)"

text \<open>
  \<open>conn = get_db_connection()\<close> followed by the rest of the block. If the
  connection cannot be opened \<open>conn\<close> stays unbound. If a later call raises,
  \<open>conn\<close> is bound to the object as it was opened: \<open>close()\<close> is the one call
  that closes it, and no call follows it in the blocks of \<open>main.py\<close>.
\<close>

definition assign_conn :: "conn io \<Rightarrow> (conn \<Rightarrow> ('a \<times> conn) io) \<Rightarrow> 'a block" where
  "assign_conn m rest w =
     (case m w of
        (Inl e, w1) \<Rightarrow> ((Inl e, None), w1)
      | (Inr c, w1) \<Rightarrow>
          (case rest c w1 of
             (Inl e, w2) \<Rightarrow> ((Inl e, Some c), w2)
           | (Inr (v, c'), w2) \<Rightarrow> ((Inr v, Some c'), w2)))"

section \<open>The tools\<close>

datatype outcome = Returns pyval | Raises exn

definition error_envelope :: "pystr \<Rightarrow> pyval" where
  "error_envelope m = PDict [(ascii ''error'', PStr m)]"

fun is_error_envelope :: "pyval \<Rightarrow> bool" where
  "is_error_envelope (PDict [(k, PStr m)]) = (k = ascii ''error'')"
| "is_error_envelope v = False"

text \<open>
  \<open>try: body except Exception as e: return {"error": f"<prefix>{str(e)}"}\<close>: an
  exception of a class under \<open>Exception\<close> becomes the envelope, any other leaves the
  function. The handler does not touch \<open>conn\<close>.
\<close>

definition try_except ::
  "string \<Rightarrow> pyval block \<Rightarrow> world \<Rightarrow> (outcome \<times> conn option) \<times> world" where
  "try_except prefix body w =
     (case body w of
        ((Inr v, local), w') \<Rightarrow> ((Returns v, local), w')
      | ((Inl e, local), w') \<Rightarrow>
          (if is_Exception (exc_class_of e)
           then ((Returns (error_envelope (ascii prefix @ str_exn e)), local), w')
           else ((Raises e, local), w')))"

text \<open>
  Leaving the tool, by \<open>return\<close> or by an exception: its frame is released. The
  connection object is referenced from that frame only (it is neither returned nor
  stored, and the exception that may refer to it through its cursor is dropped at the
  end of the handler), so under CPython's reference counting it is deallocated and its
  destructor runs before the caller goes on.
\<close>

definition function_return :: "(outcome \<times> conn option) \<times> world \<Rightarrow> outcome \<times> world" where
  "function_return r =
     (case r of ((out, local), w) \<Rightarrow>
        (out, case local of None \<Rightarrow> w | Some c \<Rightarrow> conn_dealloc c w))"

text \<open>
  \<open>list_employees\<close>, lines 38 to 50: the \<open>try\<close> block (the body) and the handler
  around it. \<open>conn.close()\<close> is the last call of the block.
\<close>

definition list_employees_body :: "int \<Rightarrow> env \<Rightarrow> pyval block" where
  "list_employees_body limit en =
     assign_conn (get_db_connection en) (\<lambda>c.
     bind_io (conn_cursor en c) (\<lambda>cu.
     bind_io (cursor_execute en c Select_recent [PInt limit]) (\<lambda>(c, cu).
     bind_io (cursor_fetchall en cu) (\<lambda>employees.
     bind_io (conn_close en c) (\<lambda>c.
     return_io (employees, c))))))"

definition list_employees :: "int \<Rightarrow> env \<Rightarrow> world \<Rightarrow> outcome \<times> world" where
  "list_employees limit en w =
     function_return
       (try_except ''It was not possible to hire employees: '' (list_employees_body limit en) w)"

text \<open>\<open>get_employee_by_id\<close>, lines 62 to 73.\<close>

definition get_employee_by_id_body :: "int \<Rightarrow> env \<Rightarrow> pyval block" where
  "get_employee_by_id_body employee_id en =
     assign_conn (get_db_connection en) (\<lambda>c.
     bind_io (conn_cursor en c) (\<lambda>cu.
     bind_io (cursor_execute en c Select_by_id [PInt employee_id]) (\<lambda>(c, cu).
     bind_io (cursor_fetchone en cu) (\<lambda>employee.
     bind_io (conn_close en c) (\<lambda>c.
     return_io (employee, c))))))"

definition get_employee_by_id :: "int \<Rightarrow> env \<Rightarrow> world \<Rightarrow> outcome \<times> world" where
  "get_employee_by_id employee_id en w =
     function_return
       (try_except ''Could not retrieve employee: '' (get_employee_by_id_body employee_id en) w)"

text \<open>
  Lines 89 to 96 of \<open>add_employee\<close>: the four checks in their order. \<open>Inl\<close> is a check
  that raised, \<open>Inr (Some m)\<close> the early return of the envelope with message \<open>m\<close>,
  \<open>Inr None\<close> falling through to the insert.
\<close>

definition validate :: "pyval \<Rightarrow> pyval \<Rightarrow> pyval \<Rightarrow> pyval \<Rightarrow> exn + pystr option" where
  "validate name position department salary =
     (case py_strip name of Inl e \<Rightarrow> Inl e | Inr n \<Rightarrow>
      if n = [] then Inr (Some (ascii ''Employee name cannot be empty.'')) else
     (case py_strip position of Inl e \<Rightarrow> Inl e | Inr p \<Rightarrow>
      if p = [] then Inr (Some (ascii ''Employee position cannot be empty.'')) else
     (case py_strip department of Inl e \<Rightarrow> Inl e | Inr d \<Rightarrow>
      if d = [] then Inr (Some (ascii ''Employee department cannot be empty.'')) else
     (case py_le_zero salary of Inl e \<Rightarrow> Inl e | Inr b \<Rightarrow>
      if b then Inr (Some (ascii ''Employee salary must be a positive number.''))
      else Inr None))))"

text \<open>
  Lines 98 to 111: connect, insert with \<open>datetime.now()\<close> as the fifth parameter, fetch
  the returned row, commit, close, and return the message with the row.
\<close>

definition insert_employee :: "pyval \<Rightarrow> pyval \<Rightarrow> pyval \<Rightarrow> pyval \<Rightarrow> env \<Rightarrow> pyval block" where
  "insert_employee name position department salary en =
     assign_conn (get_db_connection en) (\<lambda>c.
     bind_io (conn_cursor en c) (\<lambda>cu.
     bind_io (cursor_execute en c Insert_returning
                [name, position, department, salary, PDatetime (clock en)]) (\<lambda>(c, cu).
     bind_io (cursor_fetchone en cu) (\<lambda>new_employee.
     bind_io (conn_commit en c) (\<lambda>c.
     bind_io (conn_close en c) (\<lambda>c.
     return_io (PDict [(ascii ''message'', PStr (ascii ''Employee added successfully.'')),
                       (ascii ''employee'', new_employee)], c)))))))"

text \<open>\<open>add_employee\<close>, lines 88 to 113: the checks and the insert are both inside the
  \<open>try\<close> block.\<close>

definition add_employee_body :: "pyval \<Rightarrow> pyval \<Rightarrow> pyval \<Rightarrow> pyval \<Rightarrow> env \<Rightarrow> pyval block" where
  "add_employee_body name position department salary en w =
     (case validate name position department salary of
        Inl e \<Rightarrow> ((Inl e, None), w)
      | Inr (Some m) \<Rightarrow> ((Inr (error_envelope m), None), w)
      | Inr None \<Rightarrow> insert_employee name position department salary en w)"

definition add_employee ::
  "pyval \<Rightarrow> pyval \<Rightarrow> pyval \<Rightarrow> pyval \<Rightarrow> env \<Rightarrow> world \<Rightarrow> outcome \<times> world" where
  "add_employee name position department salary en w =
     function_return
       (try_except ''Could not add employee: ''
          (add_employee_body name position department salary en) w)"

text \<open>An environment in which every driver call succeeds; the clock reads \<open>t\<close>.\<close>

definition no_faults :: "int \<Rightarrow> env" where
  "no_faults t = \<lparr>clock = t, connect_fault = None, cursor_fault = None, execute_fault = None,
                  fetch_fault = None, commit_fault = None, close_fault = None\<rparr>"

section \<open>Shapes of the results\<close>

text \<open>The select list of both queries and the \<open>RETURNING\<close> list of the insert.\<close>

definition columns :: "pystr list" where
  "columns = map ascii [''id'', ''name'', ''position'', ''department'', ''salary'', ''hire_date'']"

text \<open>The tool returned, and what it returned is an error envelope.\<close>

definition returns_envelope :: "outcome \<Rightarrow> bool" where
  "returns_envelope out = (case out of Returns v \<Rightarrow> is_error_envelope v | Raises e \<Rightarrow> False)"

definition is_record :: "pyval \<Rightarrow> bool" where
  "is_record v = (case v of PDict kvs \<Rightarrow> map fst kvs = columns | _ \<Rightarrow> False)"

definition is_record_list :: "pyval \<Rightarrow> bool" where
  "is_record_list v = (case v of PList rs \<Rightarrow> list_all is_record rs | _ \<Rightarrow> False)"

definition added :: "pyval \<Rightarrow> pyval" where
  "added r = PDict [(ascii ''message'', PStr (ascii ''Employee added successfully.'')),
                    (ascii ''employee'', r)]"

definition is_added :: "pyval \<Rightarrow> bool" where
  "is_added v = (case v of PDict [(k1, m), (k2, r)] \<Rightarrow>
                   k1 = ascii ''message'' \<and> m = PStr (ascii ''Employee added successfully.'')
                   \<and> k2 = ascii ''employee'' \<and> is_record r
                 | _ \<Rightarrow> False)"

definition fault_free :: "env \<Rightarrow> bool" where
  "fault_free en \<longleftrightarrow> connect_fault en = None \<and> cursor_fault en = None \<and> execute_fault en = None
     \<and> fetch_fault en = None \<and> commit_fault en = None \<and> close_fault en = None"

definition new_row :: "pyval \<Rightarrow> pyval \<Rightarrow> pyval \<Rightarrow> pyval \<Rightarrow> env \<Rightarrow> world \<Rightarrow> employee" where
  "new_row n p d s en w = \<lparr>emp_id = next_id w, emp_name = n, emp_position = p,
      emp_department = d, emp_salary = s, emp_hire_date = clock en\<rparr>"

text \<open>The conditions of the four checks, on any Python value.\<close>

definition is_blank :: "pyval \<Rightarrow> bool" where
  "is_blank v = (case v of PStr s \<Rightarrow> strip s = [] | _ \<Rightarrow> False)"

definition is_nonblank :: "pyval \<Rightarrow> bool" where
  "is_nonblank v = (case v of PStr s \<Rightarrow> strip s \<noteq> [] | _ \<Rightarrow> False)"

definition is_nonpositive :: "pyval \<Rightarrow> bool" where
  "is_nonpositive v = (py_le_zero v = Inr True)"

definition is_positive :: "pyval \<Rightarrow> bool" where
  "is_positive v = (py_le_zero v = Inr False)"

definition validation_messages :: "pystr list" where
  "validation_messages = map ascii
     [''Employee name cannot be empty.'', ''Employee position cannot be empty.'',
      ''Employee department cannot be empty.'', ''Employee salary must be a positive number.'']"

text \<open>A store with three employees, for the concrete instances below.\<close>

definition ada :: employee where
  "ada = \<lparr>emp_id = 1, emp_name = PStr (ascii ''Ada''), emp_position = PStr (ascii ''Engineer''),
          emp_department = PStr (ascii ''R&D''), emp_salary = PInt 100000, emp_hire_date = 100\<rparr>"

definition bob :: employee where
  "bob = \<lparr>emp_id = 2, emp_name = PStr (ascii ''Bob''), emp_position = PStr (ascii ''Clerk''),
          emp_department = PStr (ascii ''Sales''), emp_salary = PInt 50000, emp_hire_date = 300\<rparr>"

definition eve :: employee where
  "eve = \<lparr>emp_id = 3, emp_name = PStr (ascii ''Eve''), emp_position = PStr (ascii ''Analyst''),
          emp_department = PStr (ascii ''Ops''), emp_salary = PInt 70000, emp_hire_date = 200\<rparr>"

definition staffed_world :: world where
  "staffed_world = \<lparr>employees = [ada, bob, eve], next_id = 4, open_conns = 0, statements = []\<rparr>"

text \<open>The same store after Zoe was added at time 500.\<close>

definition zoe :: employee where
  "zoe = \<lparr>emp_id = 4, emp_name = PStr (ascii ''Zoe''), emp_position = PStr (ascii ''Engineer''),
          emp_department = PStr (ascii ''R&D''), emp_salary = PInt 95000, emp_hire_date = 500\<rparr>"

definition world_with_zoe :: world where
  "world_with_zoe = \<lparr>employees = [ada, bob, eve, zoe], next_id = 5, open_conns = 0,
     statements = [(Insert_returning,
       [PStr (ascii ''Zoe''), PStr (ascii ''Engineer''), PStr (ascii ''R&D''), PInt 95000,
        PDatetime 500])]\<rparr>"

section \<open>Basic facts\<close>

lemmas io_defs = bind_io_def return_io_def get_db_connection_def conn_cursor_def
  cursor_execute_def cursor_fetchall_def cursor_fetchone_def conn_commit_def conn_close_def
  assign_conn_def

lemma is_record_row_of: "is_record (row_of e)"
  by (simp add: is_record_def row_of_def columns_def)

lemma error_envelope_is: "is_error_envelope (error_envelope m)"
  by (simp add: error_envelope_def)

lemma added_not_envelope: "\<not> is_error_envelope (added r)"
  by (simp add: added_def)

lemma run_sql_select_recent:
  "run_sql Select_recent [PInt n] tbl nid =
     (if n < 0 then Inl (ascii ''LIMIT must not be negative'')
      else Inr (map row_of (take (nat n) (order_by_hire_date_desc tbl)), []))"
  by (simp add: run_sql_def)

lemma run_sql_select_by_id:
  "run_sql Select_by_id [PInt i] tbl nid = Inr (map row_of (filter (\<lambda>e. emp_id e = i) tbl), [])"
  by (simp add: run_sql_def)

lemma run_sql_insert:
  "run_sql Insert_returning [n, p, d, s, PDatetime t] tbl nid =
     Inr ([row_of \<lparr>emp_id = nid, emp_name = n, emp_position = p, emp_department = d,
               emp_salary = s, emp_hire_date = t\<rparr>],
          [\<lparr>emp_id = nid, emp_name = n, emp_position = p, emp_department = d,
               emp_salary = s, emp_hire_date = t\<rparr>])"
  by (simp add: run_sql_def Let_def)

subsection \<open>\<open>list_employees\<close>\<close>

lemma list_employees_body_raises:
  "list_employees_body limit en w = ((Inl e, l), w') \<Longrightarrow> is_Exception (exc_class_of e)"
  by (auto simp: list_employees_body_def io_defs run_sql_select_recent Let_def
           split: option.splits sum.splits prod.splits if_splits)

lemma list_employees_body_returns:
  "list_employees_body limit en w = ((Inr v, l), w') \<Longrightarrow>
     0 \<le> limit \<and> v = PList (map row_of (take (nat limit) (order_by_hire_date_desc (employees w))))
     \<and> employees w' = employees w \<and> next_id w' = next_id w \<and> open_conns w' = open_conns w
     \<and> statements w' = statements w @ [(Select_recent, [PInt limit])]
     \<and> (\<exists>c. l = Some c \<and> conn_closed c)"
  by (auto simp: list_employees_body_def io_defs run_sql_select_recent Let_def
           split: option.splits sum.splits prod.splits if_splits)

lemma list_employees_body_persisted:
  "employees (snd (list_employees_body limit en w)) = employees w"
  by (auto simp: list_employees_body_def io_defs run_sql_select_recent Let_def
           split: option.splits sum.splits prod.splits if_splits)

text \<open>The destructor changes nothing but the count of open connections.\<close>

lemma conn_dealloc_fields:
  "employees (conn_dealloc c w) = employees w"
  "next_id (conn_dealloc c w) = next_id w"
  "statements (conn_dealloc c w) = statements w"
  by (simp_all add: conn_dealloc_def)

lemma tool_employees:
  "employees (snd (function_return (try_except prefix body w))) = employees (snd (body w))"
  by (auto simp: function_return_def try_except_def conn_dealloc_fields
           split: prod.splits sum.splits option.splits)

lemma tool_statements:
  "statements (snd (function_return (try_except prefix body w))) = statements (snd (body w))"
  by (auto simp: function_return_def try_except_def conn_dealloc_fields
           split: prod.splits sum.splits option.splits)

lemma tool_Returns:
  assumes "function_return (try_except prefix body w) = (Returns v, w')"
    and "\<not> is_error_envelope v"
  shows "\<exists>l w1. body w = ((Inr v, l), w1)
           \<and> w' = (case l of None \<Rightarrow> w1 | Some c \<Rightarrow> conn_dealloc c w1)"
  using assms
  by (auto simp: function_return_def try_except_def error_envelope_is
           split: prod.splits sum.splits if_splits)

lemma tool_total:
  assumes "\<And>e l w'. body w = ((Inl e, l), w') \<Longrightarrow> is_Exception (exc_class_of e)"
  shows "\<exists>v. fst (function_return (try_except prefix body w)) = Returns v
            \<and> (is_error_envelope v \<or> (\<exists>l w'. body w = ((Inr v, l), w')))"
proof (cases "body w")
  case (Pair rl w')
  obtain r l where rl: "rl = (r, l)" by (cases rl)
  show ?thesis
  proof (cases r)
    case (Inl e)
    with Pair rl assms have "is_Exception (exc_class_of e)" by blast
    with Pair rl Inl show ?thesis
      by (simp add: function_return_def try_except_def error_envelope_is)
  next
    case (Inr v)
    with Pair rl show ?thesis by (simp add: function_return_def try_except_def)
  qed
qed

subsection \<open>\<open>get_employee_by_id\<close>\<close>

lemma get_employee_by_id_body_raises:
  "get_employee_by_id_body i en w = ((Inl e, l), w') \<Longrightarrow> is_Exception (exc_class_of e)"
  by (auto simp: get_employee_by_id_body_def io_defs run_sql_select_by_id Let_def
           split: option.splits sum.splits prod.splits if_splits)

lemma get_employee_by_id_body_returns:
  "get_employee_by_id_body i en w = ((Inr v, l), w') \<Longrightarrow>
     v = (case filter (\<lambda>e. emp_id e = i) (employees w) of [] \<Rightarrow> PNone | e # es \<Rightarrow> row_of e)
     \<and> employees w' = employees w \<and> next_id w' = next_id w \<and> open_conns w' = open_conns w
     \<and> statements w' = statements w @ [(Select_by_id, [PInt i])]
     \<and> (\<exists>c. l = Some c \<and> conn_closed c)"
  by (auto simp: get_employee_by_id_body_def io_defs run_sql_select_by_id Let_def
           split: option.splits sum.splits prod.splits if_splits list.splits)

lemma get_employee_by_id_body_persisted:
  "employees (snd (get_employee_by_id_body i en w)) = employees w"
  by (auto simp: get_employee_by_id_body_def io_defs run_sql_select_by_id Let_def
           split: option.splits sum.splits prod.splits if_splits)

subsection \<open>\<open>add_employee\<close>\<close>

lemma insert_employee_raises:
  "insert_employee n p d s en w = ((Inl e, l), w') \<Longrightarrow> is_Exception (exc_class_of e)"
  by (auto simp: insert_employee_def io_defs run_sql_insert Let_def
           split: option.splits sum.splits prod.splits if_splits)

lemma insert_employee_returns:
  "insert_employee n p d s en w = ((Inr v, l), w') \<Longrightarrow>
     v = added (row_of (new_row n p d s en w))
     \<and> employees w' = employees w @ [new_row n p d s en w]
     \<and> next_id w' = next_id w + 1 \<and> open_conns w' = open_conns w
     \<and> statements w' = statements w @ [(Insert_returning, [n, p, d, s, PDatetime (clock en)])]
     \<and> (\<exists>c. l = Some c \<and> conn_closed c)"
  by (auto simp: insert_employee_def io_defs run_sql_insert Let_def added_def new_row_def
           split: option.splits sum.splits prod.splits if_splits)

lemma py_strip_raises: "py_strip v = Inl e \<Longrightarrow> is_Exception (exc_class_of e)"
  by (cases v) auto

lemma py_le_zero_raises: "py_le_zero v = Inl e \<Longrightarrow> is_Exception (exc_class_of e)"
  by (cases v) auto

lemma validate_raises: "validate n p d s = Inl e \<Longrightarrow> is_Exception (exc_class_of e)"
  by (auto simp: validate_def split: sum.splits if_splits dest: py_strip_raises py_le_zero_raises)

lemma add_employee_body_raises:
  "add_employee_body n p d s en w = ((Inl e, l), w') \<Longrightarrow> is_Exception (exc_class_of e)"
  by (auto simp: add_employee_body_def split: sum.splits option.splits
           dest: validate_raises insert_employee_raises)

text \<open>A string strips to the empty string exactly when it is whitespace only.\<close>

lemma strip_Nil_iff: "strip s = [] \<longleftrightarrow> (\<forall>c\<in>set s. py_isspace c)"
proof -
  have "dropWhile py_isspace (rev (dropWhile py_isspace s)) = [] \<longleftrightarrow> dropWhile py_isspace s = []"
  proof
    assume a: "dropWhile py_isspace (rev (dropWhile py_isspace s)) = []"
    show "dropWhile py_isspace s = []"
    proof (rule ccontr)
      assume n: "dropWhile py_isspace s \<noteq> []"
      then have "\<not> py_isspace (hd (dropWhile py_isspace s))" by (rule hd_dropWhile)
      moreover from n have "hd (dropWhile py_isspace s) \<in> set (rev (dropWhile py_isspace s))" by simp
      ultimately show False using a by (metis dropWhile_eq_Nil_conv)
    qed
  qed (simp del: dropWhile_eq_Nil_conv)
  then show ?thesis by (simp add: strip_def)
qed

lemma validate_passes_iff:
  "validate n p d s = Inr None \<longleftrightarrow>
     is_nonblank n \<and> is_nonblank p \<and> is_nonblank d \<and> is_positive s"
  by (cases n; cases p; cases d; cases "py_le_zero s")
     (auto simp: validate_def is_nonblank_def is_positive_def)


section \<open>The error boundary\<close>

text \<open>
  Claim C1. Whatever the arguments, the state of the store and the failures of the driver
  calls (validation, connection, execution), each of \<open>list_employees\<close>,
  \<open>get_employee_by_id\<close> and \<open>add_employee\<close> returns a value, and that value is either
  the tool's structured success value (a list of records; a record or \<open>None\<close>; the
  message with the inserted record) or an error envelope: no exception leaves the tool.
\<close>

theorem tools_return_value_or_envelope:
  "(\<exists>v. fst (list_employees limit en w) = Returns v \<and> (is_error_envelope v \<or> is_record_list v))
   \<and> (\<exists>v. fst (get_employee_by_id i en w) = Returns v
          \<and> (is_error_envelope v \<or> v = PNone \<or> is_record v))
   \<and> (\<exists>v. fst (add_employee n p d s en w) = Returns v \<and> (is_error_envelope v \<or> is_added v))"
proof (intro conjI)
  obtain v where v: "fst (list_employees limit en w) = Returns v"
      "is_error_envelope v \<or> (\<exists>l w'. list_employees_body limit en w = ((Inr v, l), w'))"
    unfolding list_employees_def
    using tool_total [of "list_employees_body limit en" w] list_employees_body_raises
    by blast
  have "is_record_list v" if "list_employees_body limit en w = ((Inr v, l), w')" for l w'
    using list_employees_body_returns [OF that]
    by (simp add: is_record_list_def list_all_iff is_record_row_of)
  with v show "\<exists>v. fst (list_employees limit en w) = Returns v
                 \<and> (is_error_envelope v \<or> is_record_list v)"
    by blast
next
  obtain v where v: "fst (get_employee_by_id i en w) = Returns v"
      "is_error_envelope v \<or> (\<exists>l w'. get_employee_by_id_body i en w = ((Inr v, l), w'))"
    unfolding get_employee_by_id_def
    using tool_total [of "get_employee_by_id_body i en" w] get_employee_by_id_body_raises
    by blast
  have "v = PNone \<or> is_record v" if "get_employee_by_id_body i en w = ((Inr v, l), w')"
    for l w'
    using get_employee_by_id_body_returns [OF that]
    by (auto simp: is_record_row_of split: list.splits)
  with v show "\<exists>v. fst (get_employee_by_id i en w) = Returns v
                 \<and> (is_error_envelope v \<or> v = PNone \<or> is_record v)"
    by blast
next
  obtain v where v: "fst (add_employee n p d s en w) = Returns v"
      "is_error_envelope v \<or> (\<exists>l w'. add_employee_body n p d s en w = ((Inr v, l), w'))"
    unfolding add_employee_def
    using tool_total [of "add_employee_body n p d s en" w] add_employee_body_raises
    by blast
  have "is_error_envelope v \<or> is_added v"
    if "add_employee_body n p d s en w = ((Inr v, l), w')" for l w'
    using that insert_employee_returns [of n p d s en w v l w']
    by (auto simp: add_employee_body_def error_envelope_is is_added_def added_def is_record_row_of
             split: sum.splits option.splits)
  with v show "\<exists>v. fst (add_employee n p d s en w) = Returns v
                 \<and> (is_error_envelope v \<or> is_added v)"
    by blast
qed

text \<open>
  When the store cannot be reached (\<open>psycopg2.connect\<close> raises), every tool returns an
  error envelope and no connection is counted as open.
\<close>

lemma unreachable_store_envelope:
  assumes "connect_fault en = Some m"
  shows "returns_envelope (fst (list_employees limit en w))"
    and "returns_envelope (fst (get_employee_by_id i en w))"
    and "returns_envelope (fst (add_employee n p d s en w))"
    and "open_conns (snd (list_employees limit en w)) = open_conns w"
    and "open_conns (snd (get_employee_by_id i en w)) = open_conns w"
    and "open_conns (snd (add_employee n p d s en w)) = open_conns w"
proof -
  show "returns_envelope (fst (list_employees limit en w))"
    and "open_conns (snd (list_employees limit en w)) = open_conns w"
    using assms
    by (simp_all add: list_employees_def try_except_def function_return_def
          list_employees_body_def io_defs returns_envelope_def error_envelope_is)
  show "returns_envelope (fst (get_employee_by_id i en w))"
    and "open_conns (snd (get_employee_by_id i en w)) = open_conns w"
    using assms
    by (simp_all add: get_employee_by_id_def try_except_def function_return_def
          get_employee_by_id_body_def io_defs returns_envelope_def error_envelope_is)
  have ins: "insert_employee n p d s en w = ((Inl (Exn OperationalError m), None), w)"
    using assms by (simp add: insert_employee_def io_defs)
  show "returns_envelope (fst (add_employee n p d s en w))"
    and "open_conns (snd (add_employee n p d s en w)) = open_conns w"
    using validate_raises [of n p d s]
    by (auto simp: add_employee_def try_except_def function_return_def add_employee_body_def ins
          returns_envelope_def error_envelope_is split: sum.splits option.splits)
qed

section \<open>Validation in \<open>add_employee\<close>\<close>



lemma add_employee_success:
  assumes "add_employee n p d s en w = (Returns v, w')" and "\<not> is_error_envelope v"
  shows "validate n p d s = Inr None \<and> (\<exists>l. insert_employee n p d s en w = ((Inr v, l), w'))"
proof -
  from assms obtain l w1 where b: "add_employee_body n p d s en w = ((Inr v, l), w1)"
    and w': "w' = (case l of None \<Rightarrow> w1 | Some c \<Rightarrow> conn_dealloc c w1)"
    unfolding add_employee_def using tool_Returns by blast
  have p: "validate n p d s = Inr None"
    using b assms(2)
    by (auto simp: add_employee_body_def error_envelope_is split: sum.splits option.splits)
  with b have i: "insert_employee n p d s en w = ((Inr v, l), w1)"
    by (simp add: add_employee_body_def)
  from insert_employee_returns [OF i] w' have "w' = w1"
    by (auto simp: conn_dealloc_def)
  with p i show ?thesis by blast
qed

lemma add_employee_early_return:
  "validate n p d s = Inr (Some m) \<Longrightarrow>
   add_employee n p d s en w = (Returns (error_envelope m), w)"
  by (simp add: add_employee_def add_employee_body_def try_except_def function_return_def)

lemma validate_name_blank:
  "is_blank n \<Longrightarrow> validate n p d s = Inr (Some (ascii ''Employee name cannot be empty.''))"
  by (cases n) (auto simp: validate_def is_blank_def)

lemma validate_position_blank:
  "is_nonblank n \<Longrightarrow> is_blank p \<Longrightarrow>
   validate n p d s = Inr (Some (ascii ''Employee position cannot be empty.''))"
  by (cases n; cases p) (auto simp: validate_def is_blank_def is_nonblank_def)

lemma validate_department_blank:
  "is_nonblank n \<Longrightarrow> is_nonblank p \<Longrightarrow> is_blank d \<Longrightarrow>
   validate n p d s = Inr (Some (ascii ''Employee department cannot be empty.''))"
  by (cases n; cases p; cases d) (auto simp: validate_def is_blank_def is_nonblank_def)

lemma validate_salary_nonpositive:
  "is_nonblank n \<Longrightarrow> is_nonblank p \<Longrightarrow> is_nonblank d \<Longrightarrow> is_nonpositive s \<Longrightarrow>
   validate n p d s = Inr (Some (ascii ''Employee salary must be a positive number.''))"
  by (cases n; cases p; cases d)
     (auto simp: validate_def is_blank_def is_nonblank_def is_nonpositive_def)

lemma distinct_validation_messages: "distinct validation_messages"
  by (simp add: validation_messages_def ascii_def)

lemma generic_message_not_specific:
  "ascii ''Could not add employee: '' @ m \<notin> set validation_messages"
  by (simp add: validation_messages_def ascii_def)

text \<open>
  Claim C2, as stated, at an empty \<open>name\<close>: the message of the envelope is
  \<open>Employee name cannot be empty.\<close>, with the word \<open>Employee\<close> in front, not
  \<open>name cannot be empty.\<close>
\<close>

theorem add_employee_blank_name_message:
  "fst (add_employee (PStr []) (PStr (ascii ''Engineer'')) (PStr (ascii ''R&D'')) (PInt 100000)
          (no_faults 0) staffed_world)
     = Returns (error_envelope (ascii ''Employee name cannot be empty.''))
   \<and> fst (add_employee (PStr []) (PStr (ascii ''Engineer'')) (PStr (ascii ''R&D'')) (PInt 100000)
          (no_faults 0) staffed_world)
     \<noteq> Returns (error_envelope (ascii ''name cannot be empty.''))"
  by (simp add: add_employee_early_return validate_name_blank is_blank_def strip_def
        error_envelope_def ascii_def)

text \<open>
  Claim C2, amended. The four checks run in the order name, position, department, salary
  and the first that fails decides: a blank \<open>name\<close> gives
  \<open>Employee name cannot be empty.\<close>; a non-blank name and a blank \<open>position\<close> give
  \<open>Employee position cannot be empty.\<close>; non-blank name and position and a blank
  \<open>department\<close> give \<open>Employee department cannot be empty.\<close>; three non-blank
  strings and \<open>salary <= 0\<close> give \<open>Employee salary must be a positive number.\<close>
  The four envelopes are pairwise distinct, and the world is unchanged in each case.
\<close>

theorem add_employee_validation_order:
  "(is_blank name \<longrightarrow>
      add_employee name position department salary en w
        = (Returns (error_envelope (ascii ''Employee name cannot be empty.'')), w))
   \<and> (is_nonblank name \<and> is_blank position \<longrightarrow>
      add_employee name position department salary en w
        = (Returns (error_envelope (ascii ''Employee position cannot be empty.'')), w))
   \<and> (is_nonblank name \<and> is_nonblank position \<and> is_blank department \<longrightarrow>
      add_employee name position department salary en w
        = (Returns (error_envelope (ascii ''Employee department cannot be empty.'')), w))
   \<and> (is_nonblank name \<and> is_nonblank position \<and> is_nonblank department
        \<and> is_nonpositive salary \<longrightarrow>
      add_employee name position department salary en w
        = (Returns (error_envelope (ascii ''Employee salary must be a positive number.'')), w))
   \<and> distinct (map error_envelope validation_messages)"
proof (intro conjI impI)
  show "distinct (map error_envelope validation_messages)"
    using distinct_validation_messages
    by (simp add: distinct_map inj_on_def error_envelope_def)
qed (simp_all add: add_employee_early_return validate_name_blank validate_position_blank
       validate_department_blank validate_salary_nonpositive)

text \<open>One call for each of the four checks.\<close>

theorem add_employee_validation_order_witness:
  "add_employee (PStr (ascii '' '')) PNone (PStr []) (PInt 0) (no_faults 0) staffed_world
     = (Returns (error_envelope (ascii ''Employee name cannot be empty.'')), staffed_world)
   \<and> add_employee (PStr (ascii ''Ada'')) (PStr []) (PStr []) (PInt 0) (no_faults 0) staffed_world
     = (Returns (error_envelope (ascii ''Employee position cannot be empty.'')), staffed_world)
   \<and> add_employee (PStr (ascii ''Ada'')) (PStr (ascii ''Engineer'')) (PStr [9, 10]) (PInt 0)
        (no_faults 0) staffed_world
     = (Returns (error_envelope (ascii ''Employee department cannot be empty.'')), staffed_world)
   \<and> add_employee (PStr (ascii ''Ada'')) (PStr (ascii ''Engineer'')) (PStr (ascii ''R&D''))
        (PFloat (Finite 0)) (no_faults 0) staffed_world
     = (Returns (error_envelope (ascii ''Employee salary must be a positive number.'')),
        staffed_world)"
proof -
  have b: "is_blank (PStr (ascii '' ''))" "is_blank (PStr [])" "is_blank (PStr [9, 10])"
    by (simp_all add: is_blank_def strip_def py_isspace_def ascii_def)
  have n: "is_nonblank (PStr (ascii ''Ada''))" "is_nonblank (PStr (ascii ''Engineer''))"
      "is_nonblank (PStr (ascii ''R&D''))"
    by (simp_all add: is_nonblank_def strip_def py_isspace_def ascii_def)
  have s: "is_nonpositive (PFloat (Finite 0))"
    by (simp add: is_nonpositive_def)
  note t = add_employee_validation_order
  have 1: "add_employee (PStr (ascii '' '')) PNone (PStr []) (PInt 0) (no_faults 0) staffed_world
     = (Returns (error_envelope (ascii ''Employee name cannot be empty.'')), staffed_world)"
    by (rule mp [OF t [THEN conjunct1] b(1)])
  have 2: "add_employee (PStr (ascii ''Ada'')) (PStr []) (PStr []) (PInt 0) (no_faults 0)
        staffed_world
     = (Returns (error_envelope (ascii ''Employee position cannot be empty.'')), staffed_world)"
    by (rule mp [OF t [THEN conjunct2, THEN conjunct1] conjI [OF n(1) b(2)]])
  have 3: "add_employee (PStr (ascii ''Ada'')) (PStr (ascii ''Engineer'')) (PStr [9, 10]) (PInt 0)
        (no_faults 0) staffed_world
     = (Returns (error_envelope (ascii ''Employee department cannot be empty.'')), staffed_world)"
    by (rule mp [OF t [THEN conjunct2, THEN conjunct2, THEN conjunct1]
                    conjI [OF n(1) conjI [OF n(2) b(3)]]])
  have 4: "add_employee (PStr (ascii ''Ada'')) (PStr (ascii ''Engineer'')) (PStr (ascii ''R&D''))
        (PFloat (Finite 0)) (no_faults 0) staffed_world
     = (Returns (error_envelope (ascii ''Employee salary must be a positive number.'')),
        staffed_world)"
    by (rule mp [OF t [THEN conjunct2, THEN conjunct2, THEN conjunct2, THEN conjunct1]
                    conjI [OF n(1) conjI [OF n(2) conjI [OF n(3) s]]]])
  from 1 2 3 4 show ?thesis by (intro conjI)
qed

text \<open>
  Claim C10. When one of the checks itself raises (\<open>.strip()\<close> on a value that is not
  a \<open>str\<close>, or \<open><= 0\<close> on a value that does not compare with \<open>0\<close>),
  \<open>add_employee\<close> returns the envelope of the catch-all handler,
  \<open>Could not add employee: \<close> followed by \<open>str(e)\<close>, which is none of the four
  validation messages, and the world is unchanged: nothing is inserted.
\<close>

theorem add_employee_check_raises:
  assumes "validate name position department salary = Inl e"
  shows "add_employee name position department salary en w
           = (Returns (error_envelope (ascii ''Could not add employee: '' @ str_exn e)), w)
         \<and> ascii ''Could not add employee: '' @ str_exn e \<notin> set validation_messages"
proof -
  from assms have "is_Exception (exc_class_of e)" by (rule validate_raises)
  with assms show ?thesis
    by (simp add: add_employee_def add_employee_body_def try_except_def function_return_def
          generic_message_not_specific)
qed

text \<open>With \<open>name = None\<close> the first check raises \<open>AttributeError\<close>.\<close>

theorem add_employee_check_raises_witness:
  "validate PNone (PStr (ascii ''Engineer'')) (PStr (ascii ''R&D'')) (PInt 100000)
     = Inl (Exn AttributeError
         (ascii ([CHR 0x27] @ ''NoneType'' @ [CHR 0x27] @ '' object has no attribute ''
                 @ [CHR 0x27] @ ''strip'' @ [CHR 0x27])))
   \<and> add_employee PNone (PStr (ascii ''Engineer'')) (PStr (ascii ''R&D'')) (PInt 100000)
        (no_faults 0) staffed_world
     = (Returns (error_envelope (ascii (''Could not add employee: '' @ [CHR 0x27] @ ''NoneType''
          @ [CHR 0x27] @ '' object has no attribute '' @ [CHR 0x27] @ ''strip'' @ [CHR 0x27]))),
        staffed_world)"
proof -
  have v: "validate PNone (PStr (ascii ''Engineer'')) (PStr (ascii ''R&D'')) (PInt 100000)
     = Inl (Exn AttributeError
         (ascii ([CHR 0x27] @ ''NoneType'' @ [CHR 0x27] @ '' object has no attribute ''
                 @ [CHR 0x27] @ ''strip'' @ [CHR 0x27])))"
    by (simp add: validate_def)
  from v add_employee_check_raises [OF v, of "no_faults 0" staffed_world]
  show ?thesis by (simp add: ascii_def)
qed

section \<open>Outcomes when no driver call fails\<close>

lemma fault_free_no_faults: "fault_free (no_faults t)"
  by (simp add: fault_free_def no_faults_def)

lemma sorted_order_by_hire_date_desc:
  "sorted_wrt (\<lambda>a b. emp_hire_date b \<le> emp_hire_date a) (order_by_hire_date_desc tbl)"
proof -
  have "sorted (map (\<lambda>e. - emp_hire_date e) (sort_key (\<lambda>e. - emp_hire_date e) tbl))"
    by (rule sorted_sort_key)
  then show ?thesis
    by (simp add: order_by_hire_date_desc_def sorted_wrt_map)
qed

lemma set_order_by_hire_date_desc: "set (order_by_hire_date_desc tbl) = set tbl"
  by (simp add: order_by_hire_date_desc_def)

lemma list_employees_success:
  assumes "list_employees limit en w = (Returns v, w')" and "\<not> is_error_envelope v"
  shows "\<exists>l. list_employees_body limit en w = ((Inr v, l), w')"
proof -
  from assms obtain l w1 where b: "list_employees_body limit en w = ((Inr v, l), w1)"
    and w': "w' = (case l of None \<Rightarrow> w1 | Some c \<Rightarrow> conn_dealloc c w1)"
    unfolding list_employees_def using tool_Returns by blast
  from list_employees_body_returns [OF b] w' have "w' = w1"
    by (auto simp: conn_dealloc_def)
  with b show ?thesis by blast
qed

lemma list_employees_fault_free:
  assumes "fault_free en" and "0 \<le> limit"
  shows "list_employees limit en w =
    (Returns (PList (map row_of (take (nat limit) (order_by_hire_date_desc (employees w))))),
     w\<lparr>statements := statements w @ [(Select_recent, [PInt limit])]\<rparr>)"
  using assms
  by (simp add: list_employees_def try_except_def function_return_def conn_dealloc_def
        list_employees_body_def io_defs run_sql_select_recent fault_free_def)

lemma list_employees_negative:
  assumes "fault_free en" and "limit < 0"
  shows "list_employees limit en w =
    (Returns (error_envelope (ascii ''It was not possible to hire employees: ''
                              @ ascii ''LIMIT must not be negative'')),
     w\<lparr>statements := statements w @ [(Select_recent, [PInt limit])]\<rparr>)"
  using assms
  by (simp add: list_employees_def try_except_def function_return_def conn_dealloc_def
        list_employees_body_def io_defs run_sql_select_recent fault_free_def)

lemma get_employee_by_id_fault_free:
  assumes "fault_free en"
  shows "get_employee_by_id i en w =
    (Returns (case filter (\<lambda>e. emp_id e = i) (employees w) of [] \<Rightarrow> PNone | e # es \<Rightarrow> row_of e),
     w\<lparr>statements := statements w @ [(Select_by_id, [PInt i])]\<rparr>)"
  using assms
  by (simp add: get_employee_by_id_def try_except_def function_return_def conn_dealloc_def
        get_employee_by_id_body_def io_defs run_sql_select_by_id fault_free_def
        split: list.splits)

lemma add_employee_fault_free:
  assumes "fault_free en" and "validate n p d s = Inr None"
  shows "add_employee n p d s en w =
    (Returns (added (row_of (new_row n p d s en w))),
     w\<lparr>employees := employees w @ [new_row n p d s en w], next_id := next_id w + 1,
       statements := statements w @ [(Insert_returning, [n, p, d, s, PDatetime (clock en)])]\<rparr>)"
  using assms
  by (simp add: add_employee_def try_except_def function_return_def conn_dealloc_def
        add_employee_body_def insert_employee_def io_defs run_sql_insert fault_free_def
        added_def new_row_def)

lemma validate_zoe:
  "validate (PStr (ascii ''Zoe'')) (PStr (ascii ''Engineer'')) (PStr (ascii ''R&D'')) (PInt 95000)
     = Inr None"
  by (simp add: validate_passes_iff is_nonblank_def is_positive_def strip_def py_isspace_def
        ascii_def)

lemma add_zoe:
  "add_employee (PStr (ascii ''Zoe'')) (PStr (ascii ''Engineer'')) (PStr (ascii ''R&D''))
     (PInt 95000) (no_faults 500) staffed_world = (Returns (added (row_of zoe)), world_with_zoe)"
  using add_employee_fault_free [OF fault_free_no_faults validate_zoe, of 500 staffed_world]
  by (simp add: new_row_def zoe_def world_with_zoe_def staffed_world_def no_faults_def)

section \<open>Reading the table\<close>

text \<open>
  Claim C5. For \<open>limit >= 0\<close>, a successful \<open>list_employees(limit)\<close> returns at most
  \<open>limit\<close> records, rows of the table, each with the columns \<open>id\<close>, \<open>name\<close>,
  \<open>position\<close>, \<open>department\<close>, \<open>salary\<close>, \<open>hire_date\<close>, in descending order of
  \<open>hire_date\<close>; the one statement sent is the constant select with \<open>limit\<close> as its
  bound parameter.
\<close>

theorem list_employees_at_most_limit_newest_first:
  assumes "0 \<le> limit" and "list_employees limit en w = (Returns v, w')"
    and "\<not> is_error_envelope v"
  shows "\<exists>rows. v = PList (map row_of rows) \<and> length rows \<le> nat limit
           \<and> sorted_wrt (\<lambda>a b. emp_hire_date b \<le> emp_hire_date a) rows
           \<and> set rows \<subseteq> set (employees w)
           \<and> list_all is_record (map row_of rows)
           \<and> statements w' = statements w @ [(Select_recent, [PInt limit])]"
proof -
  let ?rows = "take (nat limit) (order_by_hire_date_desc (employees w))"
  from assms(2,3) obtain l where "list_employees_body limit en w = ((Inr v, l), w')"
    using list_employees_success by blast
  then have v: "v = PList (map row_of ?rows)"
    and st: "statements w' = statements w @ [(Select_recent, [PInt limit])]"
    by (simp_all add: list_employees_body_returns)
  have "length ?rows \<le> nat limit" by simp
  moreover have "sorted_wrt (\<lambda>a b. emp_hire_date b \<le> emp_hire_date a) ?rows"
    using sorted_order_by_hire_date_desc by (rule sorted_wrt_take)
  moreover have "set ?rows \<subseteq> set (employees w)"
    using set_take_subset [of "nat limit" "order_by_hire_date_desc (employees w)"]
    by (simp add: set_order_by_hire_date_desc)
  moreover have "list_all is_record (map row_of ?rows)"
    by (simp add: list_all_iff is_record_row_of)
  ultimately show ?thesis using v st by blast
qed

text \<open>The two newest of the three employees.\<close>

theorem list_employees_at_most_limit_newest_first_witness:
  "(0::int) \<le> 2
   \<and> list_employees 2 (no_faults 0) staffed_world
       = (Returns (PList [row_of bob, row_of eve]),
          staffed_world\<lparr>statements := [(Select_recent, [PInt 2])]\<rparr>)
   \<and> \<not> is_error_envelope (PList [row_of bob, row_of eve])
   \<and> (\<exists>rows. PList [row_of bob, row_of eve] = PList (map row_of rows) \<and> length rows \<le> nat 2
           \<and> sorted_wrt (\<lambda>a b. emp_hire_date b \<le> emp_hire_date a) rows
           \<and> set rows \<subseteq> set (employees staffed_world)
           \<and> list_all is_record (map row_of rows)
           \<and> statements (staffed_world\<lparr>statements := [(Select_recent, [PInt 2])]\<rparr>)
               = statements staffed_world @ [(Select_recent, [PInt 2])])"
proof -
  have h0: "(0::int) \<le> 2" by simp
  have o: "order_by_hire_date_desc (employees staffed_world) = [bob, eve, ada]"
    by (simp add: order_by_hire_date_desc_def staffed_world_def ada_def bob_def eve_def)
  have h1: "list_employees 2 (no_faults 0) staffed_world
       = (Returns (PList [row_of bob, row_of eve]),
          staffed_world\<lparr>statements := [(Select_recent, [PInt 2])]\<rparr>)"
    using list_employees_fault_free [OF fault_free_no_faults h0, of 0 staffed_world] o
    by (simp add: staffed_world_def numeral_2_eq_2)
  have h2: "\<not> is_error_envelope (PList [row_of bob, row_of eve])" by simp
  from h0 h1 h2 list_employees_at_most_limit_newest_first [OF h0 h1 h2]
  show ?thesis by (intro conjI)
qed

text \<open>
  Claim C6. When no row has the given \<open>employee_id\<close> and the store answers,
  \<open>get_employee_by_id\<close> returns \<open>None\<close>, which is not an error envelope. The
  identifier is not validated: whatever its sign it is sent as the bound parameter.
\<close>

theorem get_employee_by_id_absent:
  assumes "fault_free en" and "\<forall>e\<in>set (employees w). emp_id e \<noteq> employee_id"
  shows "fst (get_employee_by_id employee_id en w) = Returns PNone
         \<and> \<not> is_error_envelope PNone
         \<and> statements (snd (get_employee_by_id employee_id en w))
             = statements w @ [(Select_by_id, [PInt employee_id])]"
proof -
  from assms(2) have "filter (\<lambda>e. emp_id e = employee_id) (employees w) = []"
    by (simp add: filter_empty_conv)
  then show ?thesis
    by (simp add: get_employee_by_id_fault_free [OF assms(1)])
qed

text \<open>A negative identifier matches none of the three employees.\<close>

theorem get_employee_by_id_absent_witness:
  "fault_free (no_faults 0)
   \<and> list_all (\<lambda>e. emp_id e \<noteq> - 5) (employees staffed_world)
   \<and> fst (get_employee_by_id (- 5) (no_faults 0) staffed_world) = Returns PNone
   \<and> \<not> is_error_envelope PNone
   \<and> statements (snd (get_employee_by_id (- 5) (no_faults 0) staffed_world))
       = statements staffed_world @ [(Select_by_id, [PInt (- 5)])]"
proof -
  have h: "\<forall>e\<in>set (employees staffed_world). emp_id e \<noteq> - 5"
    by (simp add: staffed_world_def ada_def bob_def eve_def)
  from fault_free_no_faults h
    get_employee_by_id_absent [OF fault_free_no_faults h, of 0]
  show ?thesis by (simp add: list_all_iff)
qed

text \<open>
  Claim C9, as stated, at \<open>limit = -1\<close>: the store rejects the statement and the tool
  returns an error envelope, not an empty sequence.
\<close>

theorem list_employees_negative_limit_rejected:
  "returns_envelope (fst (list_employees (- 1) (no_faults 0) staffed_world))
   \<and> fst (list_employees (- 1) (no_faults 0) staffed_world) \<noteq> Returns (PList [])"
  by (simp add: list_employees_negative [OF fault_free_no_faults] returns_envelope_def
        error_envelope_def)

text \<open>
  Claim C9, amended. \<open>list_employees\<close> does not validate \<open>limit\<close>: for every
  \<open>limit <= 0\<close> the value is sent as the bound parameter. With \<open>limit = 0\<close> the
  result is the empty list; with \<open>limit < 0\<close> PostgreSQL rejects the statement and
  the result is the error envelope of the handler.
\<close>

theorem list_employees_nonpositive_limit:
  assumes "fault_free en" and "limit \<le> 0"
  shows "statements (snd (list_employees limit en w))
           = statements w @ [(Select_recent, [PInt limit])]
         \<and> (limit = 0 \<longrightarrow> fst (list_employees limit en w) = Returns (PList []))
         \<and> (limit < 0 \<longrightarrow> returns_envelope (fst (list_employees limit en w)))"
proof (cases "limit < 0")
  case True
  then show ?thesis
    by (simp add: list_employees_negative [OF assms(1)] returns_envelope_def error_envelope_is)
next
  case False
  with assms(2) have "limit = 0" by simp
  then show ?thesis by (simp add: list_employees_fault_free [OF assms(1)])
qed

text \<open>The limits \<open>0\<close> and \<open>-1\<close>.\<close>

theorem list_employees_nonpositive_limit_witness:
  "fault_free (no_faults 0) \<and> (0::int) \<le> 0 \<and> (- 1::int) \<le> 0
   \<and> statements (snd (list_employees 0 (no_faults 0) staffed_world))
       = statements staffed_world @ [(Select_recent, [PInt 0])]
   \<and> fst (list_employees 0 (no_faults 0) staffed_world) = Returns (PList [])
   \<and> statements (snd (list_employees (- 1) (no_faults 0) staffed_world))
       = statements staffed_world @ [(Select_recent, [PInt (- 1)])]
   \<and> returns_envelope (fst (list_employees (- 1) (no_faults 0) staffed_world))"
proof -
  have a: "(0::int) \<le> 0" and b: "(- 1::int) \<le> 0" by simp_all
  from list_employees_nonpositive_limit [OF fault_free_no_faults a, of 0 staffed_world]
       list_employees_nonpositive_limit [OF fault_free_no_faults b, of 0 staffed_world]
  show ?thesis by (simp add: fault_free_no_faults)
qed

section \<open>Inserting a row\<close>

text \<open>
  Claim C3. A successful \<open>add_employee\<close> passed validation, sent one statement (the
  insert with its \<open>RETURNING\<close> list), committed exactly one new row to the table, and
  returns the success message with that row, which has the six columns and the generated
  \<open>id\<close>. \<open>list_employees\<close> and \<open>get_employee_by_id\<close> never change the table.
\<close>

theorem add_employee_one_committed_insert:
  assumes "add_employee name position department salary en w = (Returns v, w')"
    and "\<not> is_error_envelope v"
  shows "validate name position department salary = Inr None
         \<and> v = PDict [(ascii ''message'', PStr (ascii ''Employee added successfully.'')),
                      (ascii ''employee'', row_of (new_row name position department salary en w))]
         \<and> is_record (row_of (new_row name position department salary en w))
         \<and> emp_id (new_row name position department salary en w) = next_id w
         \<and> employees w' = employees w @ [new_row name position department salary en w]
         \<and> statements w' = statements w @
              [(Insert_returning, [name, position, department, salary, PDatetime (clock en)])]
         \<and> employees (snd (list_employees limit en2 w2)) = employees w2
         \<and> employees (snd (get_employee_by_id employee_id en2 w2)) = employees w2"
proof -
  from assms obtain l where p: "validate name position department salary = Inr None"
    and i: "insert_employee name position department salary en w = ((Inr v, l), w')"
    using add_employee_success by blast
  note r = insert_employee_returns [OF i]
  have "employees (snd (list_employees limit en2 w2)) = employees w2"
    by (simp add: list_employees_def tool_employees list_employees_body_persisted)
  moreover have "employees (snd (get_employee_by_id employee_id en2 w2)) = employees w2"
    by (simp add: get_employee_by_id_def tool_employees get_employee_by_id_body_persisted)
  ultimately show ?thesis
    using p r by (simp add: added_def is_record_row_of new_row_def)
qed

text \<open>Adding Zoe to the three employees.\<close>

theorem add_employee_one_committed_insert_witness:
  "add_employee (PStr (ascii ''Zoe'')) (PStr (ascii ''Engineer'')) (PStr (ascii ''R&D''))
     (PInt 95000) (no_faults 500) staffed_world = (Returns (added (row_of zoe)), world_with_zoe)
   \<and> \<not> is_error_envelope (added (row_of zoe))
   \<and> new_row (PStr (ascii ''Zoe'')) (PStr (ascii ''Engineer'')) (PStr (ascii ''R&D''))
        (PInt 95000) (no_faults 500) staffed_world = zoe
   \<and> employees world_with_zoe = employees staffed_world @ [zoe]
   \<and> statements world_with_zoe = statements staffed_world @
        [(Insert_returning, [PStr (ascii ''Zoe''), PStr (ascii ''Engineer''),
           PStr (ascii ''R&D''), PInt 95000, PDatetime (clock (no_faults 500))])]
   \<and> employees (snd (list_employees 2 (no_faults 0) staffed_world)) = employees staffed_world
   \<and> employees (snd (get_employee_by_id 1 (no_faults 0) staffed_world))
       = employees staffed_world"
proof -
  have n: "\<not> is_error_envelope (added (row_of zoe))" by (rule added_not_envelope)
  have z: "new_row (PStr (ascii ''Zoe'')) (PStr (ascii ''Engineer'')) (PStr (ascii ''R&D''))
        (PInt 95000) (no_faults 500) staffed_world = zoe"
    by (simp add: new_row_def zoe_def staffed_world_def no_faults_def)
  note c = add_employee_one_committed_insert [OF add_zoe n, of 2 "no_faults 0" staffed_world 1]
  show ?thesis
    by (insert add_zoe n z c [unfolded z], elim conjE, intro conjI; assumption)
qed

text \<open>
  Claim C8. On a successful \<open>add_employee\<close> the \<open>hire_date\<close> of the new row is the
  reading of the clock taken by the tool during the call; the caller supplies only
  \<open>name\<close>, \<open>position\<close>, \<open>department\<close> and \<open>salary\<close>. One row is added and the
  rows already in the table are left as they were.
\<close>

theorem add_employee_hire_date_from_clock:
  assumes "add_employee name position department salary en w = (Returns v, w')"
    and "\<not> is_error_envelope v"
  shows "\<exists>e. employees w' = employees w @ [e] \<and> emp_hire_date e = clock en
           \<and> emp_name e = name \<and> emp_position e = position
           \<and> emp_department e = department \<and> emp_salary e = salary
           \<and> statements w' = statements w @
                [(Insert_returning, [name, position, department, salary, PDatetime (clock en)])]"
proof -
  from assms obtain l
    where "insert_employee name position department salary en w = ((Inr v, l), w')"
    using add_employee_success by blast
  from insert_employee_returns [OF this] show ?thesis
    by (intro exI [of _ "new_row name position department salary en w"])
       (simp add: new_row_def)
qed

text \<open>Zoe is hired at the clock's reading, 500.\<close>

theorem add_employee_hire_date_from_clock_witness:
  "add_employee (PStr (ascii ''Zoe'')) (PStr (ascii ''Engineer'')) (PStr (ascii ''R&D''))
     (PInt 95000) (no_faults 500) staffed_world = (Returns (added (row_of zoe)), world_with_zoe)
   \<and> \<not> is_error_envelope (added (row_of zoe))
   \<and> (\<exists>e. employees world_with_zoe = employees staffed_world @ [e]
           \<and> emp_hire_date e = clock (no_faults 500)
           \<and> emp_name e = PStr (ascii ''Zoe'') \<and> emp_position e = PStr (ascii ''Engineer'')
           \<and> emp_department e = PStr (ascii ''R&D'') \<and> emp_salary e = PInt 95000
           \<and> statements world_with_zoe = statements staffed_world @
                [(Insert_returning, [PStr (ascii ''Zoe''), PStr (ascii ''Engineer''),
                   PStr (ascii ''R&D''), PInt 95000, PDatetime (clock (no_faults 500))])])"
proof -
  have n: "\<not> is_error_envelope (added (row_of zoe))" by (rule added_not_envelope)
  from add_zoe n add_employee_hire_date_from_clock [OF add_zoe n]
  show ?thesis by (intro conjI)
qed

section \<open>Releasing the connection\<close>

text \<open>
  On the path that returns the tool's value, the \<open>try\<close> block itself has closed the
  connection: \<open>conn.close()\<close> is its last call (see the \<open>_body_returns\<close> facts
  above). When a driver call raises after the connection was opened, \<open>conn.close()\<close>
  is skipped and the block is left with the connection open; it is then the release of
  the tool's frame that closes it.
\<close>

lemma list_employees_block_skips_close:
  assumes "fault_free en" and "limit < 0"
  shows "\<exists>e c w1. list_employees_body limit en w = ((Inl e, Some c), w1)
           \<and> \<not> conn_closed c \<and> open_conns w1 = open_conns w + 1"
  using assms
  by (simp add: list_employees_body_def io_defs run_sql_select_recent fault_free_def)






end
